theory Spec2Isabelle
  imports Main "HOL-Library.Sublist" "HOL-Library.Multiset"
begin

section \<open>WeatherMaker: forecast collection, condition normalisation and the forecast table\<close>

text \<open>
  A shallow embedding of \<^verbatim>\<open>weather_maker.py\<close> and \<^verbatim>\<open>database_init.py\<close>.
  A Python \<^verbatim>\<open>str\<close> is a \<^typ>\<open>string\<close>, one list element per code point: the
  program only slices, concatenates and tests for substrings, so nothing depends on the
  encoding. Python's \<^verbatim>\<open>kw in text\<close> on strings is the contiguous-sublist test
  \<^const>\<open>sublist\<close>.
\<close>

subsection \<open>Exceptions\<close>

text \<open>
  The exceptions the modelled code can raise: \<^verbatim>\<open>requests.get\<close> failing, an attribute
  read or a subscript on \<^verbatim>\<open>None\<close>, a missing tag attribute, and date arithmetic
  leaving the range of \<^verbatim>\<open>datetime.date\<close>.
\<close>

datatype error = RequestException | AttributeError | TypeError | KeyError | OverflowError

subsection \<open>The condition table\<close>

definition WEATHER_TYPES :: "string list" where
  "WEATHER_TYPES = [''Cloudy'', ''Rainy'', ''Snowy'', ''Sunny'']"

text \<open>
  \<^verbatim>\<open>WEATHER_CONDITION_DICT\<close> is a dict literal; iteration over its keys follows the
  order of the literal, so it is an association list. Its four keys are distinct tuples,
  hence the lookup \<^verbatim>\<open>WEATHER_CONDITION_DICT[condition_tuple]\<close> inside the loop yields
  the value paired with the key at hand.
\<close>

definition WEATHER_CONDITION_DICT :: "(string list \<times> string) list" where
  "WEATHER_CONDITION_DICT =
     [([''Cloud'', ''cloud'', ''overcast'', ''Overcast'', ''foggy'', ''Foggy''], WEATHER_TYPES ! 0),
      ([''Rain'', ''rain'', ''Drizzle'', ''drizzle''], WEATHER_TYPES ! 1),
      ([''Snow'', ''snow''], WEATHER_TYPES ! 2),
      ([''Sun'', ''sun'', ''Clear'', ''clear''], WEATHER_TYPES ! 3)]"

text \<open>The inner loop \<^verbatim>\<open>for condition in condition_tuple: if condition in text\<close>.\<close>

fun tuple_matches :: "string list \<Rightarrow> string \<Rightarrow> bool" where
  "tuple_matches [] txt = False"
| "tuple_matches (condition # rest) txt =
     (if sublist condition txt then True else tuple_matches rest txt)"

text \<open>
  The outer loop over the keys: the value of the first key with a matching keyword, or
  \<open>None\<close> when the loop runs to its end (the \<^verbatim>\<open>else\<close> of the \<^verbatim>\<open>for\<close>).
\<close>

fun scan_conditions :: "(string list \<times> string) list \<Rightarrow> string \<Rightarrow> string option" where
  "scan_conditions [] txt = None"
| "scan_conditions ((condition_tuple, weather_type) # rest) txt =
     (if tuple_matches condition_tuple txt then Some weather_type
      else scan_conditions rest txt)"

definition condition_of_text :: "string \<Rightarrow> string" where
  "condition_of_text txt =
     (case scan_conditions WEATHER_CONDITION_DICT txt of
        Some weather_type \<Rightarrow> weather_type
      | None \<Rightarrow> txt)"

subsection \<open>The parsed document\<close>

text \<open>
  What the parsing methods read of the BeautifulSoup object. \<open>None\<close> is a
  \<^verbatim>\<open>find\<close> that returned \<^verbatim>\<open>None\<close>; a text is what \<^verbatim>\<open>get_text\<close> or
  \<^verbatim>\<open>.text\<close> gives for the element found. For the direction span the inner option
  is its \<^verbatim>\<open>title\<close> attribute.
\<close>

record wind_val =
  num_swip :: "string option"
  unit_swap :: "string option"
  direction :: "string option option"

record soup =
  div_temperature :: "string option option"
  p_summary :: "string option"
  div_wind :: "wind_val option option"

definition parse_temperature :: "soup \<Rightarrow> error + string" where
  "parse_temperature sp =
     (case div_temperature sp of
        None \<Rightarrow> Inl AttributeError
      | Some None \<Rightarrow> Inl AttributeError
      | Some (Some temperature) \<Rightarrow> Inr (butlast temperature @ ''deg C''))"

definition parse_weather_condition :: "soup \<Rightarrow> error + string" where
  "parse_weather_condition sp =
     (case p_summary sp of
        None \<Rightarrow> Inl AttributeError
      | Some txt \<Rightarrow> Inr (condition_of_text txt))"

text \<open>
  In \<^verbatim>\<open>parse_wind\<close> the three inner \<^verbatim>\<open>find\<close> calls cannot raise; the subscript
  \<^verbatim>\<open>wind_direction['title']\<close> comes first, then the f-string reads
  \<^verbatim>\<open>wind_force.text\<close> and \<^verbatim>\<open>wind_units.text\<close>, in that order.
\<close>

definition parse_wind :: "soup \<Rightarrow> error + string" where
  "parse_wind sp =
     (case div_wind sp of
        None \<Rightarrow> Inl AttributeError
      | Some None \<Rightarrow> Inl AttributeError
      | Some (Some wind) \<Rightarrow>
          (case direction wind of
             None \<Rightarrow> Inl TypeError
           | Some None \<Rightarrow> Inl KeyError
           | Some (Some wind_direction) \<Rightarrow>
               (case num_swip wind of
                  None \<Rightarrow> Inl AttributeError
                | Some wind_force \<Rightarrow>
                    (case unit_swap wind of
                       None \<Rightarrow> Inl AttributeError
                     | Some wind_units \<Rightarrow>
                         Inr (wind_force @ '' '' @ wind_units @ ''    '' @ wind_direction)))))"

subsection \<open>Dates\<close>

text \<open>
  A \<^verbatim>\<open>datetime.date\<close> is represented by its proleptic Gregorian ordinal, which is
  what the library compares and adds on: \<^verbatim>\<open>d + timedelta(days=1)\<close> computes
  \<^verbatim>\<open>o = d.toordinal() + 1\<close> and raises \<^verbatim>\<open>OverflowError\<close> unless
  \<^verbatim>\<open>0 < o <= _MAXORDINAL\<close>. The ordinal of 9999-12-31 is 3652059.
  The model starts after \<^verbatim>\<open>date.fromisoformat\<close> has parsed the two arguments.
\<close>

type_synonym date = int

definition MAXORDINAL :: int where
  "MAXORDINAL = 3652059"

definition is_leap :: "int \<Rightarrow> bool" where
  "is_leap year = (year mod 4 = 0 \<and> (year mod 100 \<noteq> 0 \<or> year mod 400 = 0))"

definition days_before_year :: "int \<Rightarrow> int" where
  "days_before_year year =
     (let y = year - 1 in y * 365 + y div 4 - y div 100 + y div 400)"

definition days_before_month :: "int \<Rightarrow> nat \<Rightarrow> int" where
  "days_before_month year month =
     [0, 0, 31, 59, 90, 120, 151, 181, 212, 243, 273, 304, 334] ! month
       + (if month > 2 \<and> is_leap year then 1 else 0)"

definition ymd2ord :: "int \<Rightarrow> nat \<Rightarrow> int \<Rightarrow> date" where
  "ymd2ord year month day = days_before_year year + days_before_month year month + day"

definition add_day :: "date \<Rightarrow> error + date" where
  "add_day d = (let ordinal = d + 1 in
     if 0 < ordinal \<and> ordinal \<le> MAXORDINAL then Inr ordinal else Inl OverflowError)"

subsection \<open>The forecast collector\<close>

record forecast_entry =
  Date :: date
  Temperature :: string
  Weather_condition :: string
  Wind :: string

text \<open>
  A Python dict keeps insertion order; assigning to a key that is present keeps its
  place, assigning to a new key appends.
\<close>

fun dict_set :: "('k \<times> 'v) list \<Rightarrow> 'k \<Rightarrow> 'v \<Rightarrow> ('k \<times> 'v) list" where
  "dict_set [] k v = [(k, v)]"
| "dict_set ((k', v') # kvs) k v =
     (if k' = k then (k, v) # kvs else (k', v') # dict_set kvs k v)"

text \<open>The three parsing calls of one day, in the order \<^verbatim>\<open>save_forecast\<close> makes them.\<close>

definition parse_day :: "soup \<Rightarrow> date \<Rightarrow> error + forecast_entry" where
  "parse_day sp current_date =
     (case parse_temperature sp of
        Inl e \<Rightarrow> Inl e
      | Inr t \<Rightarrow>
          (case parse_weather_condition sp of
             Inl e \<Rightarrow> Inl e
           | Inr c \<Rightarrow>
               (case parse_wind sp of
                  Inl e \<Rightarrow> Inl e
                | Inr w \<Rightarrow>
                    Inr \<lparr>Date = current_date, Temperature = t,
                         Weather_condition = c, Wind = w\<rparr>)))"

text \<open>
  The \<^verbatim>\<open>while\<close> loop of \<^verbatim>\<open>save_forecast\<close>. The network is a parameter: \<open>fetch d\<close>
  is the parsed answer to the request for day \<open>d\<close>, or \<open>None\<close> when
  \<^verbatim>\<open>requests.get\<close> raises. The last component lists the days requested, in order,
  and is kept when an exception ends the loop. The source creates the entry of a day
  before the request and fills it afterwards; the model adds the entry once it is
  complete, which is the same mapping whenever one is returned.
\<close>

function save_loop ::
  "(date \<Rightarrow> soup option) \<Rightarrow> date \<Rightarrow> date \<Rightarrow> (date \<times> forecast_entry) list \<Rightarrow> date list
     \<Rightarrow> (error + (date \<times> forecast_entry) list) \<times> date list" where
  "save_loop fetch current_date end_date weather_forecast requested =
     (if current_date \<le> end_date then
        (case fetch current_date of
           None \<Rightarrow> (Inl RequestException, requested @ [current_date])
         | Some sp \<Rightarrow>
             (case parse_day sp current_date of
                Inl e \<Rightarrow> (Inl e, requested @ [current_date])
              | Inr entry \<Rightarrow>
                  (case add_day current_date of
                     Inl e \<Rightarrow> (Inl e, requested @ [current_date])
                   | Inr next_date \<Rightarrow>
                       save_loop fetch next_date end_date
                         (dict_set weather_forecast current_date entry)
                         (requested @ [current_date]))))
      else (Inr weather_forecast, requested))"
  by pat_completeness auto
termination
  by (relation "measure (\<lambda>(fetch, current_date, end_date, weather_forecast, requested).
        nat (end_date - current_date + 1))")
     (auto simp: add_day_def Let_def split: if_splits)

definition save_forecast ::
  "(date \<Rightarrow> soup option) \<Rightarrow> date \<Rightarrow> date
     \<Rightarrow> (error + (date \<times> forecast_entry) list) \<times> date list" where
  "save_forecast fetch start_date end_date = save_loop fetch start_date end_date [] []"

subsection \<open>The forecast table\<close>

text \<open>
  \<^verbatim>\<open>Forecast\<close> declares four fields and no primary key, so peewee adds the
  auto-incrementing integer key; \<^verbatim>\<open>date\<close> carries no uniqueness constraint. The table
  is the list of its rows in key order. Failures of the database itself are not modelled.
\<close>

record forecast_row =
  rowid :: nat
  date :: date
  temperature :: string
  condition :: string
  wind :: string

text \<open>The writes a call sends to the database, in order.\<close>

datatype db_write =
  Insert forecast_row
| Update date string string string

definition next_rowid :: "forecast_row list \<Rightarrow> nat" where
  "next_rowid tbl = Suc (fold max (map rowid tbl) 0)"

text \<open>
  peewee's \<^verbatim>\<open>get_or_create(date=d, defaults=...)\<close>: the first row with that date and
  \<open>False\<close>, or else a new row built from the date and the defaults, and \<open>True\<close>.
\<close>

definition get_or_create ::
  "forecast_row list \<Rightarrow> date \<Rightarrow> string \<Rightarrow> string \<Rightarrow> string
     \<Rightarrow> forecast_row list \<times> forecast_row \<times> bool" where
  "get_or_create tbl d t c w =
     (case filter (\<lambda>r. date r = d) tbl of
        r # _ \<Rightarrow> (tbl, r, False)
      | [] \<Rightarrow>
          (let r = \<lparr>rowid = next_rowid tbl, date = d,
                    temperature = t, condition = c, wind = w\<rparr>
           in (tbl @ [r], r, True)))"

text \<open>\<^verbatim>\<open>update({temperature: t, condition: c, wind: w}).where(date == d).execute()\<close>\<close>

definition update_where ::
  "forecast_row list \<Rightarrow> date \<Rightarrow> string \<Rightarrow> string \<Rightarrow> string \<Rightarrow> forecast_row list" where
  "update_where tbl d t c w =
     map (\<lambda>r. if date r = d then r\<lparr>temperature := t, condition := c, wind := w\<rparr> else r) tbl"

text \<open>The body of the \<^verbatim>\<open>for record in forecast.values()\<close> loop of \<^verbatim>\<open>store_forecast\<close>.\<close>

definition store_record ::
  "forecast_row list \<Rightarrow> forecast_entry \<Rightarrow> forecast_row list \<times> db_write list" where
  "store_record tbl record =
     (case get_or_create tbl (Date record)
             (Temperature record) (Weather_condition record) (Wind record) of
        (tbl', data, created) \<Rightarrow>
          if created then
            (update_where tbl' (Date record)
               (Temperature record) (Weather_condition record) (Wind record),
             [Insert data,
              Update (Date record) (Temperature record) (Weather_condition record) (Wind record)])
          else (tbl', []))"

fun store_records ::
  "forecast_row list \<Rightarrow> forecast_entry list \<Rightarrow> forecast_row list \<times> db_write list" where
  "store_records tbl [] = (tbl, [])"
| "store_records tbl (record # records) =
     (case store_record tbl record of
        (tbl', ws) \<Rightarrow>
          (case store_records tbl' records of
             (tbl'', ws') \<Rightarrow> (tbl'', ws @ ws')))"

text \<open>
  \<^verbatim>\<open>store_forecast\<close>: the whole range is collected first, so an exception of the
  collector leaves the table untouched.
\<close>

definition store_forecast ::
  "(date \<Rightarrow> soup option) \<Rightarrow> forecast_row list \<Rightarrow> date \<Rightarrow> date
     \<Rightarrow> error + forecast_row list \<times> db_write list" where
  "store_forecast fetch tbl start_date end_date =
     (case fst (save_forecast fetch start_date end_date) of
        Inl e \<Rightarrow> Inl e
      | Inr forecast \<Rightarrow> Inr (store_records tbl (map snd forecast)))"

text \<open>
  \<^verbatim>\<open>get_forecast\<close>: \<^verbatim>\<open>select().where(date.between(start, end)).order_by(date)\<close>.
  \<^verbatim>\<open>BETWEEN\<close> includes both ends. Rows of equal date, which SQL may return in any
  order, are kept in key order here. The lines printed to the console are not modelled.
\<close>

definition get_forecast :: "forecast_row list \<Rightarrow> date \<Rightarrow> date \<Rightarrow> forecast_row list" where
  "get_forecast tbl start_date end_date =
     sort_key date (filter (\<lambda>r. start_date \<le> date r \<and> date r \<le> end_date) tbl)"

subsection \<open>Vocabulary of the specification\<close>

text \<open>
  A keyword of a group occurs in a text when the text splits into something before it,
  the keyword, and something after it.
\<close>

definition occurs_in :: "string list \<Rightarrow> string \<Rightarrow> bool" where
  "occurs_in keywords txt = (\<exists>kw \<in> set keywords. \<exists>before after. txt = before @ kw @ after)"

definition group_occurs :: "nat \<Rightarrow> string \<Rightarrow> bool" where
  "group_occurs i txt = occurs_in (fst (WEATHER_CONDITION_DICT ! i)) txt"

text \<open>Lower-casing of the ASCII letters, to speak of a keyword in another casing.\<close>

definition lower :: "char \<Rightarrow> char" where
  "lower c =
     (case map_of (zip ''ABCDEFGHIJKLMNOPQRSTUVWXYZ'' ''abcdefghijklmnopqrstuvwxyz'') c of
        Some l \<Rightarrow> l
      | None \<Rightarrow> c)"

definition occurs_ignoring_case :: "string list \<Rightarrow> string \<Rightarrow> bool" where
  "occurs_ignoring_case keywords txt = occurs_in (map (map lower) keywords) (map lower txt)"

definition valid_date :: "date \<Rightarrow> bool" where
  "valid_date d = (1 \<le> d \<and> d \<le> MAXORDINAL)"

subsection \<open>Sample data\<close>

text \<open>
  The page of the formatting scenario: the temperature span reads \<open>15.0\<close> followed by
  one unit symbol, the summary is \<open>Partly cloudy skies\<close>, the wind is 10 km/h from NW.
\<close>

definition scenario_soup :: "char \<Rightarrow> soup" where
  "scenario_soup unit_symbol =
     \<lparr>div_temperature = Some (Some (''15.0'' @ [unit_symbol])),
      p_summary = Some ''Partly cloudy skies'',
      div_wind = Some (Some \<lparr>num_swip = Some ''10'', unit_swap = Some ''km/h'',
                              direction = Some (Some ''NW'')\<rparr>)\<rparr>"

text \<open>The same page with the temperature span reading exactly \<open>15.0\<close>.\<close>

definition bare_soup :: soup where
  "bare_soup =
     \<lparr>div_temperature = Some (Some ''15.0''),
      p_summary = Some ''Partly cloudy skies'',
      div_wind = Some (Some \<lparr>num_swip = Some ''10'', unit_swap = Some ''km/h'',
                              direction = Some (Some ''NW'')\<rparr>)\<rparr>"

definition degree_sign :: char where
  "degree_sign = CHR 0xB0"

definition blank_soup :: soup where
  "blank_soup = \<lparr>div_temperature = None, p_summary = None, div_wind = None\<rparr>"

text \<open>A server that answers every request with the same page.\<close>

definition always_fetch :: "soup \<Rightarrow> date \<Rightarrow> soup option" where
  "always_fetch sp d = Some sp"

text \<open>What the collector returns for the scenario page on a day \<open>d\<close>.\<close>

definition scenario_entry :: "date \<Rightarrow> forecast_entry" where
  "scenario_entry d =
     \<lparr>Date = d, Temperature = ''15.0deg C'', Weather_condition = ''Cloudy'',
      Wind = ''10 km/h    NW''\<rparr>"

text \<open>A table that already holds a row for 2021-06-01, with other values.\<close>

definition stale_row :: forecast_row where
  "stale_row =
     \<lparr>rowid = 1, date = ymd2ord 2021 6 1, temperature = ''9.0deg C'',
      condition = ''Sunny'', wind = ''3 m/s    S''\<rparr>"

definition stale_table :: "forecast_row list" where
  "stale_table = [stale_row]"

text \<open>
  The row \<^verbatim>\<open>get_or_create\<close> inserts for a collected entry, and the two writes
  \<^verbatim>\<open>store_forecast\<close> sends when it has created that row.
\<close>

definition new_row :: "forecast_row list \<Rightarrow> forecast_entry \<Rightarrow> forecast_row" where
  "new_row tbl entry =
     \<lparr>rowid = next_rowid tbl, date = Date entry, temperature = Temperature entry,
      condition = Weather_condition entry, wind = Wind entry\<rparr>"

definition writes_of :: "forecast_row \<Rightarrow> db_write list" where
  "writes_of r = [Insert r, Update (date r) (temperature r) (condition r) (wind r)]"

section \<open>Properties\<close>

subsection \<open>The condition normalizer\<close>

lemma tuple_matches_occurs: "tuple_matches kws txt = occurs_in kws txt"
  by (induction kws) (auto simp: occurs_in_def sublist_def)

lemma scan_conditions_first:
  "i < length tbl \<Longrightarrow> tuple_matches (fst (tbl ! i)) txt \<Longrightarrow>
   (\<forall>j<i. \<not> tuple_matches (fst (tbl ! j)) txt) \<Longrightarrow>
   scan_conditions tbl txt = Some (snd (tbl ! i))"
proof (induction tbl arbitrary: i)
  case Nil
  then show ?case by simp
next
  case (Cons g tbl)
  obtain kws c where g: "g = (kws, c)" by (cases g)
  show ?case
  proof (cases i)
    case 0
    with Cons.prems g show ?thesis by simp
  next
    case (Suc k)
    from Cons.prems(3) Suc have nohead: "\<not> tuple_matches kws txt"
      using g by fastforce
    have "\<forall>j<k. \<not> tuple_matches (fst (tbl ! j)) txt"
      using Cons.prems(3) Suc by fastforce
    with Cons.IH[of k] Cons.prems(1,2) Suc
    have "scan_conditions tbl txt = Some (snd (tbl ! k))" by simp
    with nohead g Suc show ?thesis by simp
  qed
qed

lemma scan_conditions_none:
  "(\<forall>j<length tbl. \<not> tuple_matches (fst (tbl ! j)) txt) \<Longrightarrow> scan_conditions tbl txt = None"
proof (induction tbl)
  case Nil
  then show ?case by simp
next
  case (Cons g tbl)
  obtain kws c where g: "g = (kws, c)" by (cases g)
  from Cons.prems have "\<not> tuple_matches kws txt" using g by fastforce
  moreover have "\<forall>j<length tbl. \<not> tuple_matches (fst (tbl ! j)) txt"
    using Cons.prems by fastforce
  ultimately show ?case using Cons.IH g by simp
qed

lemma dict_length: "length WEATHER_CONDITION_DICT = 4"
  by (simp add: WEATHER_CONDITION_DICT_def)

lemma dict_values: "i < 4 \<Longrightarrow> snd (WEATHER_CONDITION_DICT ! i) = WEATHER_TYPES ! i"
  by (auto simp: WEATHER_CONDITION_DICT_def less_Suc_eq numeral_eq_Suc)

lemma condition_of_text_unfold:
  "condition_of_text txt =
     (if occurs_in [''Cloud'', ''cloud'', ''overcast'', ''Overcast'', ''foggy'', ''Foggy''] txt
        then ''Cloudy''
      else if occurs_in [''Rain'', ''rain'', ''Drizzle'', ''drizzle''] txt then ''Rainy''
      else if occurs_in [''Snow'', ''snow''] txt then ''Snowy''
      else if occurs_in [''Sun'', ''sun'', ''Clear'', ''clear''] txt then ''Sunny''
      else txt)"
  unfolding condition_of_text_def WEATHER_CONDITION_DICT_def WEATHER_TYPES_def
    tuple_matches_occurs[symmetric]
  by (simp del: tuple_matches.simps)

lemma condition_of_text_first:
  assumes "i < 4" "group_occurs i txt" "\<forall>j<i. \<not> group_occurs j txt"
  shows "condition_of_text txt = WEATHER_TYPES ! i"
proof -
  have "scan_conditions WEATHER_CONDITION_DICT txt = Some (snd (WEATHER_CONDITION_DICT ! i))"
    using assms by (intro scan_conditions_first)
      (simp_all add: dict_length tuple_matches_occurs group_occurs_def)
  then show ?thesis using assms(1) by (simp add: condition_of_text_def dict_values)
qed

lemma condition_of_text_none:
  assumes "\<forall>j<4. \<not> group_occurs j txt"
  shows "condition_of_text txt = txt"
proof -
  have "scan_conditions WEATHER_CONDITION_DICT txt = None"
    using assms by (intro scan_conditions_none)
      (simp add: dict_length tuple_matches_occurs group_occurs_def)
  then show ?thesis by (simp add: condition_of_text_def)
qed

text \<open>
  Claim C2. For every raw condition text, \<^verbatim>\<open>parse_weather_condition\<close> scans the
  keyword groups in their declaration order (Cloudy, Rainy, Snowy, Sunny) and returns
  the category of the first group one of whose keywords occurs in the text as a
  substring. In particular, a text in which keywords of exactly one group occur gets
  that group's category, and a text in which no keyword occurs is returned unchanged.
\<close>

theorem parse_weather_condition_first_match:
  "parse_weather_condition (sp\<lparr>p_summary := Some raw\<rparr>) = Inr
     (if occurs_in [''Cloud'', ''cloud'', ''overcast'', ''Overcast'', ''foggy'', ''Foggy''] raw
        then ''Cloudy''
      else if occurs_in [''Rain'', ''rain'', ''Drizzle'', ''drizzle''] raw then ''Rainy''
      else if occurs_in [''Snow'', ''snow''] raw then ''Snowy''
      else if occurs_in [''Sun'', ''sun'', ''Clear'', ''clear''] raw then ''Sunny''
      else raw)
   \<and> (\<forall>i<4. group_occurs i raw \<and> (\<forall>j<i. \<not> group_occurs j raw) \<longrightarrow>
         parse_weather_condition (sp\<lparr>p_summary := Some raw\<rparr>) = Inr (WEATHER_TYPES ! i))
   \<and> (\<forall>i<4. group_occurs i raw \<and> (\<forall>j<4. j \<noteq> i \<longrightarrow> \<not> group_occurs j raw) \<longrightarrow>
         parse_weather_condition (sp\<lparr>p_summary := Some raw\<rparr>) = Inr (WEATHER_TYPES ! i))
   \<and> ((\<forall>j<4. \<not> group_occurs j raw) \<longrightarrow>
         parse_weather_condition (sp\<lparr>p_summary := Some raw\<rparr>) = Inr raw)"
proof (intro conjI allI impI)
  show "parse_weather_condition (sp\<lparr>p_summary := Some raw\<rparr>) = Inr
     (if occurs_in [''Cloud'', ''cloud'', ''overcast'', ''Overcast'', ''foggy'', ''Foggy''] raw
        then ''Cloudy''
      else if occurs_in [''Rain'', ''rain'', ''Drizzle'', ''drizzle''] raw then ''Rainy''
      else if occurs_in [''Snow'', ''snow''] raw then ''Snowy''
      else if occurs_in [''Sun'', ''sun'', ''Clear'', ''clear''] raw then ''Sunny''
      else raw)"
    using condition_of_text_unfold [of "raw"] by (simp add: parse_weather_condition_def)
next
  fix i assume "i < 4" "group_occurs i raw \<and> (\<forall>j<i. \<not> group_occurs j raw)"
  then show "parse_weather_condition (sp\<lparr>p_summary := Some raw\<rparr>) = Inr (WEATHER_TYPES ! i)"
    by (simp add: parse_weather_condition_def condition_of_text_first)
next
  fix i assume i: "i < 4"
    and h: "group_occurs i raw \<and> (\<forall>j<4. j \<noteq> i \<longrightarrow> \<not> group_occurs j raw)"
  then have "\<forall>j<i. \<not> group_occurs j raw" by auto
  with i h show "parse_weather_condition (sp\<lparr>p_summary := Some raw\<rparr>) = Inr (WEATHER_TYPES ! i)"
    by (simp add: parse_weather_condition_def condition_of_text_first)
next
  assume "\<forall>j<4. \<not> group_occurs j raw"
  then show "parse_weather_condition (sp\<lparr>p_summary := Some raw\<rparr>) = Inr raw"
    by (simp add: parse_weather_condition_def condition_of_text_none)
qed


lemma group_occurs_code:
  "group_occurs i txt = tuple_matches (fst (WEATHER_CONDITION_DICT ! i)) txt"
  by (simp add: group_occurs_def tuple_matches_occurs)

lemmas eval_groups = group_occurs_code WEATHER_CONDITION_DICT_def WEATHER_TYPES_def sublist_code(3)

text \<open>
  The theorem at three texts: \<open>Light rain\<close> (only the Rainy group occurs),
  \<open>Sun and cloud\<close> (the Cloudy and the Sunny group occur, the earlier one wins) and
  \<open>Windy\<close> (no keyword occurs).
\<close>

theorem parse_weather_condition_first_match_witness:
  "group_occurs 1 ''Light rain'' \<and> \<not> group_occurs 0 ''Light rain''
   \<and> \<not> group_occurs 2 ''Light rain'' \<and> \<not> group_occurs 3 ''Light rain''
   \<and> parse_weather_condition (blank_soup\<lparr>p_summary := Some ''Light rain''\<rparr>) = Inr ''Rainy''
   \<and> group_occurs 0 ''Sun and cloud'' \<and> group_occurs 3 ''Sun and cloud''
   \<and> parse_weather_condition (blank_soup\<lparr>p_summary := Some ''Sun and cloud''\<rparr>) = Inr ''Cloudy''
   \<and> \<not> group_occurs 0 ''Windy'' \<and> \<not> group_occurs 1 ''Windy''
   \<and> \<not> group_occurs 2 ''Windy'' \<and> \<not> group_occurs 3 ''Windy''
   \<and> parse_weather_condition (blank_soup\<lparr>p_summary := Some ''Windy''\<rparr>) = Inr ''Windy''"
proof -
  have rain: "group_occurs 1 ''Light rain''" "\<not> group_occurs 0 ''Light rain''"
    "\<not> group_occurs 2 ''Light rain''" "\<not> group_occurs 3 ''Light rain''"
    by (simp_all add: eval_groups)
  have sun: "group_occurs 0 ''Sun and cloud''" "group_occurs 3 ''Sun and cloud''"
    by (simp_all add: eval_groups)
  have windy: "\<not> group_occurs 0 ''Windy''" "\<not> group_occurs 1 ''Windy''"
    "\<not> group_occurs 2 ''Windy''" "\<not> group_occurs 3 ''Windy''"
    by (simp_all add: eval_groups)
  have others: "\<forall>j<4. j \<noteq> 1 \<longrightarrow> \<not> group_occurs j ''Light rain''"
    using rain by (auto simp: less_Suc_eq numeral_eq_Suc)
  have none: "\<forall>j<4. \<not> group_occurs j ''Windy''"
    using windy by (auto simp: less_Suc_eq numeral_eq_Suc)
  have r1: "parse_weather_condition (blank_soup\<lparr>p_summary := Some ''Light rain''\<rparr>)
              = Inr (WEATHER_TYPES ! 1)"
    using parse_weather_condition_first_match [where sp = blank_soup and raw = "''Light rain''"] rain(1) others
    by auto
  have r2: "parse_weather_condition (blank_soup\<lparr>p_summary := Some ''Sun and cloud''\<rparr>)
              = Inr (WEATHER_TYPES ! 0)"
    using parse_weather_condition_first_match [where sp = blank_soup and raw = "''Sun and cloud''"] sun(1)
    by auto
  have r3: "parse_weather_condition (blank_soup\<lparr>p_summary := Some ''Windy''\<rparr>) = Inr ''Windy''"
    using parse_weather_condition_first_match [where sp = blank_soup and raw = "''Windy''"] none
    by blast
  from r1 r2 r3 rain sun windy show ?thesis
    by (simp add: WEATHER_TYPES_def)
qed

lemma categories_contain_keyword:
  "c \<in> set WEATHER_TYPES \<Longrightarrow> \<exists>j<4. group_occurs j c"
proof -
  assume "c \<in> set WEATHER_TYPES"
  then consider "c = ''Cloudy''" | "c = ''Rainy''" | "c = ''Snowy''" | "c = ''Sunny''"
    by (auto simp: WEATHER_TYPES_def)
  then show ?thesis
  proof cases
    case 1
    then have "group_occurs 0 c" by (simp add: eval_groups)
    then show ?thesis by (intro exI[of _ 0]) simp
  next
    case 2
    then have "group_occurs 1 c" by (simp add: eval_groups)
    then show ?thesis by (intro exI[of _ 1]) simp
  next
    case 3
    then have "group_occurs 2 c" by (simp add: eval_groups)
    then show ?thesis by (intro exI[of _ 2]) simp
  next
    case 4
    then have "group_occurs 3 c" by (simp add: eval_groups)
    then show ?thesis by (intro exI[of _ 3]) simp
  qed
qed

text \<open>
  Claim C10. Matching is case-sensitive: for every raw condition text in which a keyword
  of the table occurs in some other casing, but no keyword occurs as it is listed,
  \<^verbatim>\<open>parse_weather_condition\<close> returns the raw text unchanged, and that text is
  none of the four categories.
\<close>

theorem parse_weather_condition_case_sensitive:
  assumes "\<exists>j<4. occurs_ignoring_case (fst (WEATHER_CONDITION_DICT ! j)) raw"
    and "\<forall>j<4. \<not> group_occurs j raw"
  shows "parse_weather_condition (sp\<lparr>p_summary := Some raw\<rparr>) = Inr raw
         \<and> raw \<notin> set WEATHER_TYPES"
proof
  show "parse_weather_condition (sp\<lparr>p_summary := Some raw\<rparr>) = Inr raw"
    using assms(2) by (simp add: parse_weather_condition_def condition_of_text_none)
  show "raw \<notin> set WEATHER_TYPES"
    using assms(2) categories_contain_keyword by blast
qed

lemma occurs_ignoring_case_code:
  "occurs_ignoring_case kws txt = tuple_matches (map (map lower) kws) (map lower txt)"
  by (simp add: occurs_ignoring_case_def tuple_matches_occurs)

text \<open>
  The theorem at the all-uppercase text \<open>CLOUDY\<close>.
\<close>

theorem parse_weather_condition_case_sensitive_witness:
  "occurs_ignoring_case (fst (WEATHER_CONDITION_DICT ! 0)) ''CLOUDY''
   \<and> \<not> group_occurs 0 ''CLOUDY'' \<and> \<not> group_occurs 1 ''CLOUDY''
   \<and> \<not> group_occurs 2 ''CLOUDY'' \<and> \<not> group_occurs 3 ''CLOUDY''
   \<and> parse_weather_condition (blank_soup\<lparr>p_summary := Some ''CLOUDY''\<rparr>) = Inr ''CLOUDY''
   \<and> ''CLOUDY'' \<notin> set WEATHER_TYPES"
proof -
  have ci: "occurs_ignoring_case (fst (WEATHER_CONDITION_DICT ! 0)) ''CLOUDY''"
    by (simp add: occurs_ignoring_case_code WEATHER_CONDITION_DICT_def lower_def sublist_code(3))
  have no: "\<not> group_occurs 0 ''CLOUDY''" "\<not> group_occurs 1 ''CLOUDY''"
    "\<not> group_occurs 2 ''CLOUDY''" "\<not> group_occurs 3 ''CLOUDY''"
    by (simp_all add: eval_groups)
  have ex: "\<exists>j<4. occurs_ignoring_case (fst (WEATHER_CONDITION_DICT ! j)) ''CLOUDY''"
    using ci by (intro exI[of _ 0]) simp
  have none: "\<forall>j<4. \<not> group_occurs j ''CLOUDY''"
    using no by (auto simp: less_Suc_eq numeral_eq_Suc)
  from parse_weather_condition_case_sensitive [OF ex none, where sp = blank_soup] ci no
  show ?thesis by simp
qed

subsection \<open>The forecast collector\<close>

lemma ymd2ord_values:
  "ymd2ord 2021 6 1 = 737942" "ymd2ord 2021 6 2 = 737943"
  "ymd2ord 2021 6 19 = 737960" "ymd2ord 2021 6 20 = 737961"
  "ymd2ord 9999 12 31 = MAXORDINAL"
  by (simp_all add: ymd2ord_def days_before_year_def days_before_month_def is_leap_def
      MAXORDINAL_def)

lemma save_loop_past_end:
  "end_date < current_date \<Longrightarrow>
   save_loop fetch current_date end_date acc requested = (Inr acc, requested)"
  by simp

lemma save_forecast_empty_range:
  "end_date < start_date \<Longrightarrow> save_forecast fetch start_date end_date = (Inr [], [])"
  unfolding save_forecast_def by (rule save_loop_past_end)

lemma save_forecast_single_requests: "snd (save_forecast fetch d d) = [d]"
proof -
  have "snd (save_loop fetch d d [] []) = [d]"
    by (subst save_loop.simps)
      (auto simp: add_day_def Let_def save_loop_past_end split: option.splits sum.splits)
  then show ?thesis by (simp add: save_forecast_def)
qed

lemma add_day_valid:
  "valid_date d \<Longrightarrow> d \<noteq> MAXORDINAL \<Longrightarrow> add_day d = Inr (d + 1)"
  by (simp add: add_day_def valid_date_def Let_def)

lemma save_forecast_single_result:
  assumes "valid_date d" "d \<noteq> MAXORDINAL" "fetch d = Some sp" "parse_day sp d = Inr entry"
  shows "fst (save_forecast fetch d d) = Inr [(d, entry)]"
proof -
  have "save_loop fetch d d [] [] = save_loop fetch (d + 1) d [(d, entry)] [d]"
    using assms by (subst save_loop.simps) (simp add: add_day_valid)
  also have "\<dots> = (Inr [(d, entry)], [d])"
    by (rule save_loop_past_end) simp
  finally show ?thesis by (simp add: save_forecast_def)
qed

lemma parse_day_Date: "parse_day sp d = Inr entry \<Longrightarrow> Date entry = d"
  by (auto simp: parse_day_def split: sum.splits)

lemma parse_scenario:
  "parse_temperature (scenario_soup u) = Inr ''15.0deg C''"
  "parse_weather_condition (scenario_soup u) = Inr ''Cloudy''"
  "parse_wind (scenario_soup u) = Inr ''10 km/h    NW''"
    by (simp_all add: parse_temperature_def parse_weather_condition_def parse_wind_def
        scenario_soup_def condition_of_text_def WEATHER_CONDITION_DICT_def WEATHER_TYPES_def
        sublist_code(3))

lemma parse_day_scenario: "parse_day (scenario_soup u) d = Inr (scenario_entry d)"
  by (simp add: parse_day_def parse_scenario scenario_entry_def)

text \<open>
  Claim C8, as the code has it. With the start date equal to the end date,
  \<^verbatim>\<open>save_forecast\<close> requests exactly that one day, whatever happens next. When
  the date is a valid date other than the last one (9999-12-31), the request succeeds and
  the page yields the three fields, it returns the mapping with exactly one entry, keyed
  by that date.
\<close>

theorem save_forecast_single_day:
  "snd (save_forecast fetch d d) = [d]
   \<and> (valid_date d \<and> d \<noteq> MAXORDINAL \<and> fetch d = Some sp \<and> parse_day sp d = Inr entry
        \<longrightarrow> fst (save_forecast fetch d d) = Inr [(d, entry)] \<and> Date entry = d)"
  using save_forecast_single_requests save_forecast_single_result parse_day_Date by blast

text \<open>
  The theorem on 2021-06-01, with the scenario page as the answer.
\<close>

theorem save_forecast_single_day_witness:
  "valid_date (ymd2ord 2021 6 1) \<and> ymd2ord 2021 6 1 \<noteq> MAXORDINAL
   \<and> always_fetch (scenario_soup degree_sign) (ymd2ord 2021 6 1)
        = Some (scenario_soup degree_sign)
   \<and> parse_day (scenario_soup degree_sign) (ymd2ord 2021 6 1)
        = Inr (scenario_entry (ymd2ord 2021 6 1))
   \<and> save_forecast (always_fetch (scenario_soup degree_sign))
        (ymd2ord 2021 6 1) (ymd2ord 2021 6 1)
        = (Inr [(ymd2ord 2021 6 1, scenario_entry (ymd2ord 2021 6 1))], [ymd2ord 2021 6 1])"
proof -
  have v: "valid_date (ymd2ord 2021 6 1)" "ymd2ord 2021 6 1 \<noteq> MAXORDINAL"
    by (simp_all add: ymd2ord_values valid_date_def MAXORDINAL_def)
  have f: "always_fetch (scenario_soup degree_sign) (ymd2ord 2021 6 1)
             = Some (scenario_soup degree_sign)"
    by (simp add: always_fetch_def)
  have p: "parse_day (scenario_soup degree_sign) (ymd2ord 2021 6 1)
             = Inr (scenario_entry (ymd2ord 2021 6 1))"
    by (rule parse_day_scenario)
  from save_forecast_single_day
    [where fetch = "always_fetch (scenario_soup degree_sign)" and d = "ymd2ord 2021 6 1"
       and sp = "scenario_soup degree_sign" and entry = "scenario_entry (ymd2ord 2021 6 1)"]
    v f p
  show ?thesis by (simp add: prod_eq_iff)
qed

text \<open>
  On 9999-12-31 the one request is made and the page is parsed, then
  \<^verbatim>\<open>current_date += timedelta(days=1)\<close> raises \<^verbatim>\<open>OverflowError\<close>: no mapping
  is returned.
\<close>

theorem save_forecast_last_day_overflows:
  "save_forecast (always_fetch (scenario_soup degree_sign))
     (ymd2ord 9999 12 31) (ymd2ord 9999 12 31) = (Inl OverflowError, [ymd2ord 9999 12 31])"
  by (simp add: save_forecast_def ymd2ord_values always_fetch_def parse_day_scenario
      add_day_def MAXORDINAL_def)

text \<open>
  Claim C3, as the code has it. For every pair of dates with the start after the end,
  \<^verbatim>\<open>save_forecast\<close> requests nothing and returns the empty mapping; it raises
  no exception.
\<close>

theorem save_forecast_reversed_range:
  "end_date < start_date \<Longrightarrow> save_forecast fetch start_date end_date = (Inr [], [])"
  by (rule save_forecast_empty_range)

text \<open>
  The theorem on the range from 2021-06-20 back to 2021-06-19.
\<close>

theorem save_forecast_reversed_range_witness:
  "ymd2ord 2021 6 19 < ymd2ord 2021 6 20
   \<and> save_forecast (always_fetch blank_soup) (ymd2ord 2021 6 20) (ymd2ord 2021 6 19)
       = (Inr [], [])"
proof -
  have lt: "ymd2ord 2021 6 19 < ymd2ord 2021 6 20" by (simp add: ymd2ord_values)
  from lt save_forecast_reversed_range [OF lt, of "always_fetch blank_soup"]
  show ?thesis by simp
qed

text \<open>
  The collector called with 2021-06-20 and 2021-06-19 returns normally, with the empty
  mapping, where the specification asks for an error.
\<close>

theorem save_forecast_reversed_range_no_error:
  "save_forecast (always_fetch (scenario_soup degree_sign))
     (ymd2ord 2021 6 20) (ymd2ord 2021 6 19) = (Inr [], [])"
  by (simp add: save_forecast_def ymd2ord_values)

subsection \<open>The forecast table\<close>

lemma get_or_create_existing:
  assumes "d \<in> date ` set tbl"
  shows "\<exists>r. get_or_create tbl d t c w = (tbl, r, False)"
proof -
  from assms have "filter (\<lambda>r. date r = d) tbl \<noteq> []"
    by (auto simp: filter_empty_conv)
  then obtain r rs where "filter (\<lambda>r. date r = d) tbl = r # rs"
    by (cases "filter (\<lambda>r. date r = d) tbl") auto
  then show ?thesis by (simp add: get_or_create_def)
qed

lemma get_or_create_new:
  assumes "d \<notin> date ` set tbl"
  shows "get_or_create tbl d t c w =
           (tbl @ [\<lparr>rowid = next_rowid tbl, date = d, temperature = t, condition = c, wind = w\<rparr>],
            \<lparr>rowid = next_rowid tbl, date = d, temperature = t, condition = c, wind = w\<rparr>, True)"
proof -
  from assms have "filter (\<lambda>r. date r = d) tbl = []"
    by (auto simp: filter_empty_conv)
  then show ?thesis by (simp add: get_or_create_def Let_def)
qed

lemma update_where_absent:
  "d \<notin> date ` set tbl \<Longrightarrow> update_where tbl d t c w = tbl"
  by (induction tbl) (auto simp: update_where_def)

lemma update_where_append:
  "update_where (xs @ ys) d t c w = update_where xs d t c w @ update_where ys d t c w"
  by (simp add: update_where_def)

lemma store_record_existing:
  "Date entry \<in> date ` set tbl \<Longrightarrow> store_record tbl entry = (tbl, [])"
proof -
  assume "Date entry \<in> date ` set tbl"
  from get_or_create_existing [OF this] obtain r where
    "get_or_create tbl (Date entry) (Temperature entry) (Weather_condition entry) (Wind entry)
       = (tbl, r, False)" by blast
  then show ?thesis by (simp add: store_record_def)
qed

lemma store_record_new:
  assumes "Date entry \<notin> date ` set tbl"
  shows "store_record tbl entry = (tbl @ [new_row tbl entry], writes_of (new_row tbl entry))"
proof -
  have "update_where (tbl @ [new_row tbl entry]) (Date entry)
          (Temperature entry) (Weather_condition entry) (Wind entry)
        = tbl @ [new_row tbl entry]"
    using assms by (simp add: update_where_append update_where_absent)
      (simp add: update_where_def new_row_def)
  then show ?thesis
    using assms by (simp add: store_record_def get_or_create_new new_row_def writes_of_def)
qed

lemma store_record_cases:
  "store_record tbl entry =
     (if Date entry \<in> date ` set tbl then (tbl, [])
      else (tbl @ [new_row tbl entry], writes_of (new_row tbl entry)))"
  by (simp add: store_record_existing store_record_new)

lemma store_records_appends:
  "\<exists>news. store_records tbl entries = (tbl @ news, concat (map writes_of news))
          \<and> date ` set news \<inter> date ` set tbl = {}"
proof (induction entries arbitrary: tbl)
  case Nil
  show ?case by (intro exI[of _ "[]"]) simp
next
  case (Cons entry entries)
  show ?case
  proof (cases "Date entry \<in> date ` set tbl")
    case True
    from Cons.IH[of tbl] obtain news where
      "store_records tbl entries = (tbl @ news, concat (map writes_of news))"
      "date ` set news \<inter> date ` set tbl = {}" by blast
    with True show ?thesis by (intro exI[of _ news]) (simp add: store_record_existing)
  next
    case False
    let ?r = "new_row tbl entry"
    from Cons.IH[of "tbl @ [?r]"] obtain news where
      n: "store_records (tbl @ [?r]) entries = ((tbl @ [?r]) @ news, concat (map writes_of news))"
      "date ` set news \<inter> date ` set (tbl @ [?r]) = {}" by blast
    have "date ?r = Date entry" by (simp add: new_row_def)
    with False n show ?thesis
      by (intro exI[of _ "?r # news"]) (auto simp: store_record_new)
  qed
qed

lemma store_records_keeps_dates:
  assumes "store_records tbl entries = (tbl', ws)" "d \<in> date ` set tbl"
  shows "filter (\<lambda>r. date r = d) tbl' = filter (\<lambda>r. date r = d) tbl"
proof -
  from store_records_appends[of tbl entries] assms(1) obtain news where
    n: "tbl' = tbl @ news" "date ` set news \<inter> date ` set tbl = {}" by auto
  from n(2) assms(2) have "filter (\<lambda>r. date r = d) news = []"
    by (auto simp: filter_empty_conv)
  with n(1) show ?thesis by simp
qed

lemma store_records_distinct_dates:
  assumes "distinct (map date tbl)"
  shows "distinct (map date (fst (store_records tbl entries)))"
  using assms
proof (induction entries arbitrary: tbl)
  case Nil
  then show ?case by simp
next
  case (Cons entry entries)
  have "distinct (map date (fst (store_record tbl entry)))"
    using Cons.prems by (auto simp: store_record_cases new_row_def)
  from Cons.IH[OF this] show ?case
    by (cases "store_record tbl entry") (auto split: prod.splits)
qed


lemma get_forecast_mset:
  "mset (get_forecast tbl s e) = filter_mset (\<lambda>r. s \<le> date r \<and> date r \<le> e) (mset tbl)"
  by (simp add: get_forecast_def)

lemma get_forecast_sorted: "sorted (map date (get_forecast tbl s e))"
  by (simp add: get_forecast_def)

lemma get_forecast_reversed: "e < s \<Longrightarrow> get_forecast tbl s e = []"
  by (simp add: get_forecast_def filter_empty_conv)

text \<open>
  Claim C7. For every table and every pair of dates, \<^verbatim>\<open>get_forecast\<close> returns
  exactly the rows whose date lies between the start and the end, both included, in
  ascending order of date; with the start after the end the result is empty, and no
  exception is raised.
\<close>

theorem get_forecast_range_sorted:
  "mset (get_forecast tbl start_date end_date)
     = filter_mset (\<lambda>r. start_date \<le> date r \<and> date r \<le> end_date) (mset tbl)
   \<and> sorted (map date (get_forecast tbl start_date end_date))
   \<and> (end_date < start_date \<longrightarrow> get_forecast tbl start_date end_date = [])"
  using get_forecast_mset get_forecast_sorted get_forecast_reversed by blast

text \<open>
  The theorem on a populated table, queried from 2021-06-20 back to 2021-06-19.
\<close>

theorem get_forecast_range_sorted_witness:
  "ymd2ord 2021 6 19 < ymd2ord 2021 6 20
   \<and> get_forecast stale_table (ymd2ord 2021 6 20) (ymd2ord 2021 6 19) = []
   \<and> stale_table \<noteq> []"
proof -
  have lt: "ymd2ord 2021 6 19 < ymd2ord 2021 6 20" by (simp add: ymd2ord_values)
  from lt get_forecast_range_sorted
    [of stale_table "ymd2ord 2021 6 20" "ymd2ord 2021 6 19"]
  show ?thesis by (simp add: stale_table_def)
qed

lemma store_forecast_stores:
  "store_forecast fetch tbl start_date end_date = Inr (tbl', ws) \<Longrightarrow>
   \<exists>entries. store_records tbl entries = (tbl', ws)"
  by (auto simp: store_forecast_def split: sum.splits)

text \<open>
  Claim C4. An entry whose date is already in the table changes nothing and sends no
  write; an entry with a new date appends its row and sends the insert followed by the
  update of that same row. Hence after \<^verbatim>\<open>store_forecast\<close> the rows of every date
  present before the call are as they were, the table is the old one followed by the new
  rows, and every update in the writes follows the insert of the row it addresses.
\<close>

theorem store_forecast_existing_unchanged:
  "(Date entry \<in> date ` set tbl \<longrightarrow> store_record tbl entry = (tbl, []))
   \<and> (Date entry \<notin> date ` set tbl \<longrightarrow>
        store_record tbl entry
          = (tbl @ [new_row tbl entry], writes_of (new_row tbl entry)))
   \<and> (store_forecast fetch tbl start_date end_date = Inr (tbl', ws) \<longrightarrow>
        (\<forall>d \<in> date ` set tbl.
           filter (\<lambda>r. date r = d) tbl' = filter (\<lambda>r. date r = d) tbl)
        \<and> (\<exists>news. tbl' = tbl @ news \<and> ws = concat (map writes_of news)))"
proof (intro conjI impI ballI)
  assume "Date entry \<in> date ` set tbl"
  then show "store_record tbl entry = (tbl, [])" by (rule store_record_existing)
next
  assume "Date entry \<notin> date ` set tbl"
  then show "store_record tbl entry
               = (tbl @ [new_row tbl entry], writes_of (new_row tbl entry))"
    by (rule store_record_new)
next
  fix d
  assume s: "store_forecast fetch tbl start_date end_date = Inr (tbl', ws)"
    and d: "d \<in> date ` set tbl"
  from store_forecast_stores [OF s] obtain entries where
    "store_records tbl entries = (tbl', ws)" by blast
  from store_records_keeps_dates [OF this d]
  show "filter (\<lambda>r. date r = d) tbl' = filter (\<lambda>r. date r = d) tbl" .
next
  assume s: "store_forecast fetch tbl start_date end_date = Inr (tbl', ws)"
  from store_forecast_stores [OF s] obtain entries where
    f: "store_records tbl entries = (tbl', ws)" by blast
  from store_records_appends [of tbl entries] f
  show "\<exists>news. tbl' = tbl @ news \<and> ws = concat (map writes_of news)" by auto
qed

text \<open>
  For a date that is not yet in the table the store behaves as an upsert: the row is
  found by the query, and storing the entry again changes nothing.
\<close>

lemma store_then_get_fresh:
  assumes "Date entry \<notin> date ` set tbl"
  shows "get_forecast (fst (store_record tbl entry)) (Date entry) (Date entry)
           = [new_row tbl entry]"
proof -
  from assms have "\<forall>r\<in>set tbl. date r \<noteq> Date entry"
    by (metis imageI)
  then have "\<forall>r\<in>set tbl. \<not> (Date entry \<le> date r \<and> date r \<le> Date entry)"
    by (metis order_antisym)
  then have "filter (\<lambda>r. Date entry \<le> date r \<and> date r \<le> Date entry) tbl = []"
    by (simp add: filter_empty_conv)
  then show ?thesis
    using assms by (simp add: store_record_new get_forecast_def) (simp add: new_row_def)
qed

lemma store_twice_fresh:
  assumes "Date entry \<notin> date ` set tbl"
  shows "store_record (fst (store_record tbl entry)) entry = (tbl @ [new_row tbl entry], [])"
proof -
  have "Date entry \<in> date ` set (tbl @ [new_row tbl entry])"
    by (simp add: new_row_def)
  then show ?thesis
    using assms by (simp add: store_record_new store_record_existing)
qed

subsection \<open>Scenarios\<close>

lemma save_forecast_scenario_day:
  "save_forecast (always_fetch (scenario_soup u)) (ymd2ord 2021 6 1) (ymd2ord 2021 6 1)
     = (Inr [(ymd2ord 2021 6 1, scenario_entry (ymd2ord 2021 6 1))], [ymd2ord 2021 6 1])"
  by (simp add: save_forecast_def ymd2ord_values always_fetch_def parse_day_scenario
      add_day_def MAXORDINAL_def)

lemma save_forecast_scenario_two_days:
  "save_forecast (always_fetch (scenario_soup u)) (ymd2ord 2021 6 1) (ymd2ord 2021 6 2)
     = (Inr [(ymd2ord 2021 6 1, scenario_entry (ymd2ord 2021 6 1)),
             (ymd2ord 2021 6 2, scenario_entry (ymd2ord 2021 6 2))],
        [ymd2ord 2021 6 1, ymd2ord 2021 6 2])"
  by (simp add: save_forecast_def ymd2ord_values always_fetch_def parse_day_scenario
      add_day_def MAXORDINAL_def)

lemma store_record_stale:
  "store_record stale_table (scenario_entry (ymd2ord 2021 6 1)) = (stale_table, [])"
  by (rule store_record_existing) (simp add: stale_table_def stale_row_def scenario_entry_def)

text \<open>
  Claim C9, as the code has it. \<^verbatim>\<open>parse_temperature\<close> drops the last character of
  the span text before it appends the unit label, so the text must end in a unit symbol.
  The page of 2021-06-01 whose temperature span reads \<open>15.0\<close> followed by one
  character for the unit, whatever that character is, whose summary is
  \<open>Partly cloudy skies\<close> and whose wind is force
  \<open>10\<close>, unit \<open>km/h\<close>, direction title \<open>NW\<close>: the three fields parse to
  \<open>15.0deg C\<close>, \<open>Cloudy\<close> and \<open>10 km/h    NW\<close>, and these are the values of
  the row stored for that day.
\<close>

theorem formatting_scenario:
  "parse_temperature (scenario_soup unit_symbol) = Inr ''15.0deg C''
   \<and> parse_weather_condition (scenario_soup unit_symbol) = Inr ''Cloudy''
   \<and> parse_wind (scenario_soup unit_symbol) = Inr ''10 km/h    NW''
   \<and> store_forecast (always_fetch (scenario_soup unit_symbol)) []
        (ymd2ord 2021 6 1) (ymd2ord 2021 6 1)
       = Inr ([\<lparr>rowid = 1, date = ymd2ord 2021 6 1, temperature = ''15.0deg C'',
                condition = ''Cloudy'', wind = ''10 km/h    NW''\<rparr>],
              [Insert \<lparr>rowid = 1, date = ymd2ord 2021 6 1, temperature = ''15.0deg C'',
                       condition = ''Cloudy'', wind = ''10 km/h    NW''\<rparr>,
               Update (ymd2ord 2021 6 1) ''15.0deg C'' ''Cloudy'' ''10 km/h    NW''])"
proof -
  have "store_record [] (scenario_entry (ymd2ord 2021 6 1))
          = ([\<lparr>rowid = 1, date = ymd2ord 2021 6 1, temperature = ''15.0deg C'',
                condition = ''Cloudy'', wind = ''10 km/h    NW''\<rparr>],
              [Insert \<lparr>rowid = 1, date = ymd2ord 2021 6 1, temperature = ''15.0deg C'',
                       condition = ''Cloudy'', wind = ''10 km/h    NW''\<rparr>,
               Update (ymd2ord 2021 6 1) ''15.0deg C'' ''Cloudy'' ''10 km/h    NW''])"
    by (simp add: store_record_new new_row_def writes_of_def next_rowid_def scenario_entry_def)
  then have "store_forecast (always_fetch (scenario_soup unit_symbol)) []
        (ymd2ord 2021 6 1) (ymd2ord 2021 6 1)
       = Inr ([\<lparr>rowid = 1, date = ymd2ord 2021 6 1, temperature = ''15.0deg C'',
                condition = ''Cloudy'', wind = ''10 km/h    NW''\<rparr>],
              [Insert \<lparr>rowid = 1, date = ymd2ord 2021 6 1, temperature = ''15.0deg C'',
                       condition = ''Cloudy'', wind = ''10 km/h    NW''\<rparr>,
               Update (ymd2ord 2021 6 1) ''15.0deg C'' ''Cloudy'' ''10 km/h    NW''])"
    by (simp add: store_forecast_def save_forecast_scenario_day)
  then show ?thesis by (simp add: parse_scenario)
qed

text \<open>
  When the span text is exactly \<open>15.0\<close>, with no unit symbol after it, the slice
  removes the final \<open>0\<close>: the temperature parsed, and stored for 2021-06-01, is
  \<open>15.deg C\<close> and not \<open>15.0deg C\<close>.
\<close>

theorem formatting_scenario_bare_text:
  "parse_temperature bare_soup = Inr ''15.deg C''
   \<and> store_forecast (always_fetch bare_soup) [] (ymd2ord 2021 6 1) (ymd2ord 2021 6 1)
       = Inr ([\<lparr>rowid = 1, date = ymd2ord 2021 6 1, temperature = ''15.deg C'',
                condition = ''Cloudy'', wind = ''10 km/h    NW''\<rparr>],
              [Insert \<lparr>rowid = 1, date = ymd2ord 2021 6 1, temperature = ''15.deg C'',
                       condition = ''Cloudy'', wind = ''10 km/h    NW''\<rparr>,
               Update (ymd2ord 2021 6 1) ''15.deg C'' ''Cloudy'' ''10 km/h    NW''])"
proof -
  let ?e = "\<lparr>Date = ymd2ord 2021 6 1, Temperature = ''15.deg C'',
             Weather_condition = ''Cloudy'', Wind = ''10 km/h    NW''\<rparr>"
  have t: "parse_temperature bare_soup = Inr ''15.deg C''"
    by (simp add: parse_temperature_def bare_soup_def)
  have c: "parse_weather_condition bare_soup = Inr ''Cloudy''"
    by (simp add: parse_weather_condition_def bare_soup_def condition_of_text_def
        WEATHER_CONDITION_DICT_def WEATHER_TYPES_def sublist_code(3))
  have w: "parse_wind bare_soup = Inr ''10 km/h    NW''"
    by (simp add: parse_wind_def bare_soup_def)
  have p: "parse_day bare_soup d = Inr \<lparr>Date = d, Temperature = ''15.deg C'',
             Weather_condition = ''Cloudy'', Wind = ''10 km/h    NW''\<rparr>" for d
    by (simp add: parse_day_def t c w)
  have f: "fst (save_forecast (always_fetch bare_soup) (ymd2ord 2021 6 1) (ymd2ord 2021 6 1))
             = Inr [(ymd2ord 2021 6 1, ?e)]"
    by (rule save_forecast_single_result [where sp = bare_soup])
      (simp_all add: p always_fetch_def valid_date_def ymd2ord_values MAXORDINAL_def)
  have r: "store_record [] ?e
             = ([\<lparr>rowid = 1, date = ymd2ord 2021 6 1, temperature = ''15.deg C'',
                   condition = ''Cloudy'', wind = ''10 km/h    NW''\<rparr>],
                [Insert \<lparr>rowid = 1, date = ymd2ord 2021 6 1, temperature = ''15.deg C'',
                         condition = ''Cloudy'', wind = ''10 km/h    NW''\<rparr>,
                 Update (ymd2ord 2021 6 1) ''15.deg C'' ''Cloudy'' ''10 km/h    NW''])"
    by (simp add: store_record_new new_row_def writes_of_def next_rowid_def)
  from t f r show ?thesis by (simp add: store_forecast_def)
qed

text \<open>
  Claim C1 fails on the code. The table holds a row for 2021-06-01 with other values;
  the collector delivers the scenario entry for that day; after \<^verbatim>\<open>store_forecast\<close>
  the row still has its old values, and nothing was written.
\<close>

theorem store_forecast_keeps_stale_row:
  "fst (save_forecast (always_fetch (scenario_soup degree_sign))
          (ymd2ord 2021 6 1) (ymd2ord 2021 6 1))
     = Inr [(ymd2ord 2021 6 1,
             \<lparr>Date = ymd2ord 2021 6 1, Temperature = ''15.0deg C'',
              Weather_condition = ''Cloudy'', Wind = ''10 km/h    NW''\<rparr>)]
   \<and> store_forecast (always_fetch (scenario_soup degree_sign)) stale_table
        (ymd2ord 2021 6 1) (ymd2ord 2021 6 1)
     = Inr ([\<lparr>rowid = 1, date = ymd2ord 2021 6 1, temperature = ''9.0deg C'',
              condition = ''Sunny'', wind = ''3 m/s    S''\<rparr>], [])"
  using store_record_stale
  by (simp add: store_forecast_def save_forecast_scenario_day scenario_entry_def
      stale_table_def stale_row_def)

text \<open>
  Claim C5 fails on the code. Storing the scenario entry for 2021-06-01 into the table
  that already holds that date and then querying that single day returns the old row,
  not the entry just stored.
\<close>

theorem store_then_get_returns_stale_row:
  "get_forecast (fst (store_record stale_table (scenario_entry (ymd2ord 2021 6 1))))
     (ymd2ord 2021 6 1) (ymd2ord 2021 6 1)
     = [\<lparr>rowid = 1, date = ymd2ord 2021 6 1, temperature = ''9.0deg C'',
         condition = ''Sunny'', wind = ''3 m/s    S''\<rparr>]
   \<and> scenario_entry (ymd2ord 2021 6 1)
     = \<lparr>Date = ymd2ord 2021 6 1, Temperature = ''15.0deg C'',
        Weather_condition = ''Cloudy'', Wind = ''10 km/h    NW''\<rparr>"
proof -
  have "fst (store_record stale_table (scenario_entry (ymd2ord 2021 6 1))) = stale_table"
    by (simp add: store_record_stale)
  then show ?thesis
    by (simp add: get_forecast_def stale_table_def stale_row_def scenario_entry_def)
qed

text \<open>
  Claim C6 fails on the code. Storing the scenario entry twice into the table that
  already holds its date leaves the one row of that date with its old values, not the
  latest ones.
\<close>

theorem store_twice_keeps_stale_row:
  "fst (store_record (fst (store_record stale_table (scenario_entry (ymd2ord 2021 6 1))))
          (scenario_entry (ymd2ord 2021 6 1)))
     = [\<lparr>rowid = 1, date = ymd2ord 2021 6 1, temperature = ''9.0deg C'',
         condition = ''Sunny'', wind = ''3 m/s    S''\<rparr>]
   \<and> Temperature (scenario_entry (ymd2ord 2021 6 1)) = ''15.0deg C''
   \<and> Weather_condition (scenario_entry (ymd2ord 2021 6 1)) = ''Cloudy''
   \<and> Wind (scenario_entry (ymd2ord 2021 6 1)) = ''10 km/h    NW''"
  by (simp add: store_record_stale) (simp add: stale_table_def stale_row_def scenario_entry_def)

text \<open>
  The theorem of claim C4 on the table holding 2021-06-01, with the scenario page
  collected for 2021-06-01 and 2021-06-02.
\<close>

theorem store_forecast_existing_unchanged_witness:
  "Date (scenario_entry (ymd2ord 2021 6 1)) \<in> date ` set stale_table
   \<and> store_record stale_table (scenario_entry (ymd2ord 2021 6 1)) = (stale_table, [])
   \<and> Date (scenario_entry (ymd2ord 2021 6 2)) \<notin> date ` set stale_table
   \<and> store_record stale_table (scenario_entry (ymd2ord 2021 6 2))
       = (stale_table @ [new_row stale_table (scenario_entry (ymd2ord 2021 6 2))],
          writes_of (new_row stale_table (scenario_entry (ymd2ord 2021 6 2))))
   \<and> store_forecast (always_fetch (scenario_soup degree_sign)) stale_table
        (ymd2ord 2021 6 1) (ymd2ord 2021 6 2)
       = Inr (stale_table @ [new_row stale_table (scenario_entry (ymd2ord 2021 6 2))],
              writes_of (new_row stale_table (scenario_entry (ymd2ord 2021 6 2))))
   \<and> filter (\<lambda>r. date r = ymd2ord 2021 6 1)
        (stale_table @ [new_row stale_table (scenario_entry (ymd2ord 2021 6 2))])
       = filter (\<lambda>r. date r = ymd2ord 2021 6 1) stale_table
   \<and> new_row stale_table (scenario_entry (ymd2ord 2021 6 2))
       = \<lparr>rowid = 2, date = ymd2ord 2021 6 2, temperature = ''15.0deg C'',
          condition = ''Cloudy'', wind = ''10 km/h    NW''\<rparr>"
proof -
  let ?d1 = "ymd2ord 2021 6 1" and ?d2 = "ymd2ord 2021 6 2"
  let ?r2 = "new_row stale_table (scenario_entry ?d2)"
  have in1: "Date (scenario_entry ?d1) \<in> date ` set stale_table"
    by (simp add: stale_table_def stale_row_def scenario_entry_def)
  have out2: "Date (scenario_entry ?d2) \<notin> date ` set stale_table"
    by (simp add: stale_table_def stale_row_def scenario_entry_def ymd2ord_values)
  have d1: "?d1 \<in> date ` set stale_table"
    by (simp add: stale_table_def stale_row_def)
  have s1: "store_record stale_table (scenario_entry ?d1) = (stale_table, [])"
    using store_forecast_existing_unchanged [where entry = "scenario_entry ?d1"
        and tbl = stale_table] in1 by blast
  have s2: "store_record stale_table (scenario_entry ?d2)
              = (stale_table @ [?r2], writes_of ?r2)"
    using store_forecast_existing_unchanged [where entry = "scenario_entry ?d2"
        and tbl = stale_table] out2 by blast
  have in1': "Date (scenario_entry ?d1) \<in> date ` set (stale_table @ [?r2])"
    using in1 by simp
  have sf: "store_forecast (always_fetch (scenario_soup degree_sign)) stale_table ?d1 ?d2
              = Inr (stale_table @ [?r2], writes_of ?r2)"
    by (simp add: store_forecast_def save_forecast_scenario_two_days s1 s2)
  have keep: "filter (\<lambda>r. date r = ?d1) (stale_table @ [?r2])
                = filter (\<lambda>r. date r = ?d1) stale_table"
    using store_forecast_existing_unchanged [where tbl = stale_table
        and fetch = "always_fetch (scenario_soup degree_sign)"
        and start_date = ?d1 and end_date = ?d2
        and tbl' = "stale_table @ [?r2]" and ws = "writes_of ?r2"] sf d1 by blast
  have r2: "?r2 = \<lparr>rowid = 2, date = ?d2, temperature = ''15.0deg C'',
                    condition = ''Cloudy'', wind = ''10 km/h    NW''\<rparr>"
    by (simp add: new_row_def next_rowid_def stale_table_def stale_row_def scenario_entry_def)
  from in1 s1 out2 s2 sf keep r2 show ?thesis by blast
qed

end
